theory Spec2Isabelle
  imports Main "HOL-Library.Word" "HOL-Library.List_Lexorder"
begin

section \<open>JavaScript values\<close>

text \<open>
  A JavaScript string is a sequence of 16-bit UTF-16 code units. The relational operators
  and the default comparison of \<^verbatim>\<open>Array.prototype.sort\<close> compare strings code unit
  by code unit, a proper prefix being the smaller string: that is the lexicographic order
  of lists over the order of 16-bit words.
\<close>

type_synonym jsstring = "16 word list"

definition js :: "string \<Rightarrow> jsstring" where
  "js s = map of_char s"

text \<open>Errors a component can throw while it renders or handles an event.\<close>

datatype js_error = TypeError

section \<open>SourceTableFilterForm: the classification options\<close>

text \<open>
  \<^verbatim>\<open>state.taxonomies.taxonomyList\<close> holds objects with a \<^verbatim>\<open>name\<close>, an
  \<^verbatim>\<open>isLatest\<close> flag and a \<^verbatim>\<open>hierarchy\<close> that only \<^verbatim>\<open>allowedClasses\<close> reads.
  \<^verbatim>\<open>allowedClasses\<close> is imported from \<^verbatim>\<open>./ClassificationForm\<close>; it is a parameter
  here, returning objects of which the form reads the \<^verbatim>\<open>class\<close> property.
\<close>

record 'h taxonomy =
  name :: jsstring
  isLatest :: bool
  hierarchy :: 'h

record class_option =
  option_class :: jsstring

text \<open>The template literal \<^verbatim>\<open>`${taxonomy.name}: ${option.class}`\<close>.\<close>

definition label :: "jsstring \<Rightarrow> jsstring \<Rightarrow> jsstring" where
  "label taxonomy_name class_name = taxonomy_name @ js '': '' @ class_name"

text \<open>
  \<^verbatim>\<open>taxonomyList.filter((t) => t.isLatest)\<close>, then the \<^verbatim>\<open>forEach\<close> loop that
  appends the labels of each taxonomy to the accumulator \<^verbatim>\<open>classifications\<close>.
\<close>

definition latestTaxonomyList :: "'h taxonomy list \<Rightarrow> 'h taxonomy list" where
  "latestTaxonomyList taxonomyList = filter (\<lambda>t. isLatest t) taxonomyList"

definition currentClasses :: "('h \<Rightarrow> class_option list) \<Rightarrow> 'h taxonomy \<Rightarrow> jsstring list" where
  "currentClasses allowedClasses t =
     map (\<lambda>option. label (name t) (option_class option)) (allowedClasses (hierarchy t))"

definition concat_classes ::
  "('h \<Rightarrow> class_option list) \<Rightarrow> 'h taxonomy list \<Rightarrow> jsstring list" where
  "concat_classes allowedClasses ts =
     fold (\<lambda>t acc. acc @ currentClasses allowedClasses t) ts []"

text \<open>
  \<^verbatim>\<open>Array.from(new Set(xs))\<close>: a Set keeps its elements in the order of their first
  insertion, and adding an element it already holds changes nothing.
\<close>

fun Set_add :: "'a list \<Rightarrow> 'a list \<Rightarrow> 'a list" where
  "Set_add seen [] = seen"
| "Set_add seen (x # xs) = Set_add (if x \<in> set seen then seen else seen @ [x]) xs"

definition Array_from_Set :: "'a list \<Rightarrow> 'a list" where
  "Array_from_Set xs = Set_add [] xs"

text \<open>
  The option list of the classification menu. \<^verbatim>\<open>.sort()\<close> without a comparator sorts
  strings ascending by UTF-16 code units; the elements are pairwise different here, so the
  result does not depend on the sorting algorithm.
\<close>

definition classifications ::
  "('h \<Rightarrow> class_option list) \<Rightarrow> 'h taxonomy list \<Rightarrow> jsstring list" where
  "classifications allowedClasses taxonomyList =
     sort (Array_from_Set (concat_classes allowedClasses (latestTaxonomyList taxonomyList)))"

text \<open>
  The code points of a string, as \<^verbatim>\<open>String.prototype.codePointAt\<close> reads them: a lead
  surrogate followed by a trail surrogate is one code point above \<^verbatim>\<open>0xFFFF\<close>, every
  other code unit is its own code point. Ordering by code points compares these lists.
\<close>

definition is_lead :: "16 word \<Rightarrow> bool" where
  "is_lead u = (0xD800 \<le> u \<and> u \<le> 0xDBFF)"

definition is_trail :: "16 word \<Rightarrow> bool" where
  "is_trail u = (0xDC00 \<le> u \<and> u \<le> 0xDFFF)"

fun code_points :: "jsstring \<Rightarrow> nat list" where
  "code_points [] = []"
| "code_points [u] = [unat u]"
| "code_points (u # v # us) =
     (if is_lead u \<and> is_trail v
      then (0x10000 + (unat u - 0xD800) * 0x400 + (unat v - 0xDC00)) # code_points us
      else unat u # code_points (v # us))"

section \<open>SourceTableFilterForm: form state and handlers\<close>

text \<open>
  The \<^verbatim>\<open>groups\<close> prop is an array of objects with an \<^verbatim>\<open>id\<close> and a
  \<^verbatim>\<open>name\<close>, or \<^verbatim>\<open>undefined\<close> (the default prop), modelled as \<open>None\<close>.
\<close>

record group_item =
  group_id :: int
  group_name :: jsstring

text \<open>
  The values \<^verbatim>\<open>useForm\<close> keeps, keyed by the \<^verbatim>\<open>name\<close> of each registered
  input: the text of a \<^verbatim>\<open>TextField\<close>, the array of a multiple \<^verbatim>\<open>Select\<close>, the
  boolean of a \<^verbatim>\<open>Checkbox\<close>.
\<close>

datatype fvalue = Text jsstring | Labels "jsstring list" | Flag bool | Ids "int list"

type_synonym field_values = "string \<rightharpoonup> fvalue"

text \<open>The thirteen \<^verbatim>\<open>TextField\<close>s registered through \<^verbatim>\<open>inputRef={register}\<close>.\<close>

definition text_fields :: "string list" where
  "text_fields =
     [''sourceID'', ''ra'', ''dec'', ''radius'', ''startDate'', ''endDate'', ''simbadClass'',
      ''minRedshift'', ''maxRedshift'', ''minPeakMagnitude'', ''maxPeakMagnitude'',
      ''minLatestMagnitude'', ''maxLatestMagnitude'']"

text \<open>
  The default of every registered field: a text input starts empty, the three
  \<^verbatim>\<open>Controller\<close>s that are always rendered carry \<^verbatim>\<open>defaultValue\<close> \<^verbatim>\<open>[]\<close> or
  \<^verbatim>\<open>false\<close>, and the \<^verbatim>\<open>groupIds\<close> controller (default \<^verbatim>\<open>[]\<close>) exists only
  inside \<^verbatim>\<open>{groups && (...)}\<close>. Every array is truthy in JavaScript, the empty one too.
\<close>

definition group_section_shown :: "group_item list option \<Rightarrow> bool" where
  "group_section_shown groups = (case groups of None \<Rightarrow> False | Some gs \<Rightarrow> True)"

definition default_fields :: "group_item list option \<Rightarrow> (string \<times> fvalue) list" where
  "default_fields groups =
     map (\<lambda>n. (n, Text [])) text_fields @
     [(''classifications'', Labels []), (''hasTNSname'', Flag False), (''hasSpectrum'', Flag False)] @
     (if group_section_shown groups then [(''groupIds'', Ids [])] else [])"

definition defaultValues :: "group_item list option \<Rightarrow> field_values" where
  "defaultValues groups = map_of (default_fields groups)"

text \<open>
  The state of one mounted form: the values held by \<^verbatim>\<open>useForm\<close>, which are what
  \<^verbatim>\<open>getValues\<close> returns and what a submit validates and passes on, and the two
  \<^verbatim>\<open>useState\<close> arrays that only \<^verbatim>\<open>getMultiselectStyles\<close> reads.
\<close>

record form_state =
  fieldValues :: field_values
  selectedClassifications :: "jsstring list"
  selectedGroups :: "int list"

definition initial_state :: "group_item list option \<Rightarrow> form_state" where
  "initial_state groups =
     \<lparr>fieldValues = defaultValues groups, selectedClassifications = [], selectedGroups = []\<rparr>"

text \<open>Typing into the \<^verbatim>\<open>TextField\<close> called \<open>n\<close>: the form reads the input's text.\<close>

definition input_change :: "string \<Rightarrow> jsstring \<Rightarrow> form_state \<Rightarrow> form_state" where
  "input_change n v st = st\<lparr>fieldValues := (fieldValues st)(n \<mapsto> Text v)\<rparr>"

text \<open>
  \<^verbatim>\<open>onChange\<close> of the classification \<^verbatim>\<open>Select\<close>:
  \<^verbatim>\<open>setSelectedClassifications(event.target.value); onChange(event.target.value)\<close>.
\<close>

definition classifications_onChange :: "jsstring list \<Rightarrow> form_state \<Rightarrow> form_state" where
  "classifications_onChange v st =
     st\<lparr>selectedClassifications := v,
        fieldValues := (fieldValues st)(''classifications'' \<mapsto> Labels v)\<rparr>"

text \<open>\<^verbatim>\<open>onChange\<close> of a \<^verbatim>\<open>Checkbox\<close>: \<^verbatim>\<open>onChange(event.target.checked)\<close>.\<close>

definition checkbox_onChange :: "string \<Rightarrow> bool \<Rightarrow> form_state \<Rightarrow> form_state" where
  "checkbox_onChange n b st = st\<lparr>fieldValues := (fieldValues st)(n \<mapsto> Flag b)\<rparr>"

text \<open>
  A change of the group \<^verbatim>\<open>Select\<close>. The \<^verbatim>\<open>groupIds\<close> controller is written with
  \<^verbatim>\<open>as={Select}\<close> and an \<^verbatim>\<open>onChange\<close> prop that would call
  \<^verbatim>\<open>setSelectedGroups(event.target.value)\<close>. The form's other controllers use the
  \<^verbatim>\<open>render\<close> prop, which only the 6.x line of the library has, and there the
  controller hands its own \<^verbatim>\<open>onChange\<close> to the element given with \<^verbatim>\<open>as\<close>, in place
  of the prop: the function written in the form is never called. The change stores
  \<^verbatim>\<open>event.target.value\<close> as the value of the field and leaves \<^verbatim>\<open>selectedGroups\<close> as
  it is.
\<close>

definition groupIds_onChange :: "int list \<Rightarrow> form_state \<Rightarrow> form_state" where
  "groupIds_onChange v st = st\<lparr>fieldValues := (fieldValues st)(''groupIds'' \<mapsto> Ids v)\<rparr>"

text \<open>
  \<^verbatim>\<open>handleClickReset\<close> calls \<^verbatim>\<open>reset()\<close> of \<^verbatim>\<open>useForm\<close> and nothing else. The
  form is created by \<^verbatim>\<open>useForm()\<close> with no \<^verbatim>\<open>defaultValues\<close>: the library resets
  the form element, which empties the thirteen text inputs, while the values that the
  controllers hold for \<^verbatim>\<open>classifications\<close>, \<^verbatim>\<open>hasTNSname\<close>, \<^verbatim>\<open>hasSpectrum\<close> and
  \<^verbatim>\<open>groupIds\<close> stay what they were. Neither \<^verbatim>\<open>useState\<close> setter is called.
\<close>

definition handleClickReset :: "form_state \<Rightarrow> form_state" where
  "handleClickReset st =
     st\<lparr>fieldValues := fieldValues st ++ map_of (map (\<lambda>n. (n, Text [])) text_fields)\<rparr>"

subsection \<open>Validation and submission\<close>

text \<open>
  The rules of the \<^verbatim>\<open>groupIds\<close> controller are
  \<^verbatim>\<open>{ required: true, validate: validateGroups }\<close>. The library checks
  \<^verbatim>\<open>required\<close> first and records the first rule that fails under the name of the
  field. Its test for a value that is present is a parameter \<open>required\<close> of the model:
  whether an empty array counts as present differs between versions of the library.
  \<^verbatim>\<open>validateGroups\<close> reads \<^verbatim>\<open>getValues({ nest: true }).groupIds.length\<close>, which
  throws when the field is \<^verbatim>\<open>undefined\<close> (the \<^verbatim>\<open>length\<close> of a boolean is
  \<^verbatim>\<open>undefined\<close>, which is not \<^verbatim>\<open>0\<close>).
\<close>

datatype rule = Required | Validate

definition validateGroups :: "form_state \<Rightarrow> js_error + bool" where
  "validateGroups st =
     (case fieldValues st ''groupIds'' of
        Some (Ids ids) \<Rightarrow> Inr (length ids \<noteq> 0)
      | Some (Labels ls) \<Rightarrow> Inr (length ls \<noteq> 0)
      | Some (Text s) \<Rightarrow> Inr (length s \<noteq> 0)
      | Some (Flag b) \<Rightarrow> Inr True
      | None \<Rightarrow> Inl TypeError)"

text \<open>
  One such test: \<^verbatim>\<open>undefined\<close>, the empty string, an empty array and
  \<^verbatim>\<open>false\<close> are missing values.
\<close>

definition required_ok :: "fvalue option \<Rightarrow> bool" where
  "required_ok v =
     (case v of
        None \<Rightarrow> False
      | Some (Text s) \<Rightarrow> s \<noteq> []
      | Some (Labels ls) \<Rightarrow> ls \<noteq> []
      | Some (Ids ids) \<Rightarrow> ids \<noteq> []
      | Some (Flag b) \<Rightarrow> b)"

definition groupIds_rules ::
  "(fvalue option \<Rightarrow> bool) \<Rightarrow> form_state \<Rightarrow> js_error + rule option" where
  "groupIds_rules required st =
     (if \<not> required (fieldValues st ''groupIds'') then Inr (Some Required)
      else case validateGroups st of
             Inl e \<Rightarrow> Inl e
           | Inr ok \<Rightarrow> Inr (if ok then None else Some Validate))"

text \<open>
  What one submit does: \<open>Blocked\<close> with the failing fields when a rule fails (the callback
  is not called), \<open>Invoked\<close> with the values handed to \<^verbatim>\<open>handleFilterSubmit\<close> and
  whatever that call produced (\<open>'r\<close> stands for its return value or the exception it
  throws), \<open>Threw\<close> when validation itself throws.
\<close>

datatype 'r outcome =
    Blocked "(string \<times> rule) list"
  | Invoked field_values 'r
  | Threw js_error

definition handleSubmit ::
  "(fvalue option \<Rightarrow> bool) \<Rightarrow> group_item list option \<Rightarrow> (field_values \<Rightarrow> 'r) \<Rightarrow>
   form_state \<Rightarrow> 'r outcome" where
  "handleSubmit required groups handleFilterSubmit st =
     (if group_section_shown groups
      then (case groupIds_rules required st of
              Inl e \<Rightarrow> Threw e
            | Inr (Some r) \<Rightarrow> Blocked [(''groupIds'', r)]
            | Inr None \<Rightarrow> Invoked (fieldValues st) (handleFilterSubmit (fieldValues st)))
      else Invoked (fieldValues st) (handleFilterSubmit (fieldValues st)))"

text \<open>
  The validation failure the specification calls MissingRequiredSelection: the submit was
  blocked and the \<^verbatim>\<open>groupIds\<close> field is among the failing fields.
\<close>

definition MissingRequiredSelection :: "'r outcome \<Rightarrow> bool" where
  "MissingRequiredSelection out =
     (case out of Blocked errs \<Rightarrow> ''groupIds'' \<in> set (map fst errs) | _ \<Rightarrow> False)"

definition callback_invoked :: "'r outcome \<Rightarrow> bool" where
  "callback_invoked out = (case out of Invoked vals r \<Rightarrow> True | _ \<Rightarrow> False)"

subsection \<open>Rendering\<close>

text \<open>
  The body of the component builds \<^verbatim>\<open>groupIDToName\<close> with \<^verbatim>\<open>groups.forEach\<close>
  before it returns any element; calling a method of \<^verbatim>\<open>undefined\<close> throws.
\<close>

definition groupIDToName :: "group_item list option \<Rightarrow> js_error + (int \<rightharpoonup> jsstring)" where
  "groupIDToName groups =
     (case groups of
        None \<Rightarrow> Inl TypeError
      | Some gs \<Rightarrow> Inr (fold (\<lambda>g m. m(group_id g \<mapsto> group_name g)) gs Map.empty))"

text \<open>
  \<^verbatim>\<open>getMultiselectStyles\<close>: medium weight exactly when
  \<^verbatim>\<open>selectedValues.indexOf(value)\<close> is not \<^verbatim>\<open>-1\<close>.
\<close>

definition getMultiselectStyles :: "'a \<Rightarrow> 'a list \<Rightarrow> bool" where
  "getMultiselectStyles v selectedValues = (v \<in> set selectedValues)"

text \<open>
  The menu entries of the group selector: \<^verbatim>\<open>groups.length > 0 && groups.map(...)\<close>,
  inside the section that \<^verbatim>\<open>groups &&\<close> guards.
\<close>

definition group_menu_values :: "group_item list option \<Rightarrow> int list option" where
  "group_menu_values groups =
     (case groups of
        None \<Rightarrow> None
      | Some gs \<Rightarrow> Some (if length gs > 0 then map group_id gs else []))"

text \<open>
  What a render shows, as far as the form's behaviour goes: the classification entries and
  the group entries with their emphasis, and the \<^verbatim>\<open>disabled\<close> state of the submit button, which is rendered as
  \<^verbatim>\<open><Button variant="contained" color="primary" type="submit">\<close> with no
  \<^verbatim>\<open>disabled\<close> prop.
\<close>

record filter_view =
  classification_menu :: "(jsstring \<times> bool) list"
  group_menu :: "(int \<times> bool) list option"
  submit_disabled :: bool

definition SourceTableFilterForm ::
  "('h \<Rightarrow> class_option list) \<Rightarrow> 'h taxonomy list \<Rightarrow> group_item list option \<Rightarrow>
   form_state \<Rightarrow> js_error + filter_view" where
  "SourceTableFilterForm allowedClasses taxonomyList groups st =
     (case groupIDToName groups of
        Inl e \<Rightarrow> Inl e
      | Inr names \<Rightarrow>
          Inr \<lparr>classification_menu =
                 map (\<lambda>c. (c, getMultiselectStyles c (selectedClassifications st)))
                   (classifications allowedClasses taxonomyList),
               group_menu =
                 map_option (map (\<lambda>i. (i, getMultiselectStyles i (selectedGroups st))))
                   (group_menu_values groups),
               submit_disabled = False\<rparr>)"

subsection \<open>Events\<close>

text \<open>
  The user's actions on a rendered form. A multiple \<^verbatim>\<open>Select\<close> can only report
  values of the menu entries it was given.
\<close>

datatype event =
    Input string jsstring
  | SelectClassifications "jsstring list"
  | CheckTNS bool
  | CheckSpectrum bool
  | SelectGroups "int list"
  | ClickReset
  | ClickSubmit

definition possible :: "jsstring list \<Rightarrow> group_item list option \<Rightarrow> event \<Rightarrow> bool" where
  "possible options groups e =
     (case e of
        Input n v \<Rightarrow> n \<in> set text_fields
      | SelectClassifications ls \<Rightarrow> set ls \<subseteq> set options
      | SelectGroups ids \<Rightarrow>
          (case group_menu_values groups of None \<Rightarrow> False | Some items \<Rightarrow> set ids \<subseteq> set items)
      | _ \<Rightarrow> True)"

fun handle ::
  "(fvalue option \<Rightarrow> bool) \<Rightarrow> group_item list option \<Rightarrow> (field_values \<Rightarrow> 'r) \<Rightarrow> event \<Rightarrow> form_state \<Rightarrow>
   form_state \<times> 'r outcome list" where
  "handle required groups cb (Input n v) st = (input_change n v st, [])"
| "handle required groups cb (SelectClassifications v) st = (classifications_onChange v st, [])"
| "handle required groups cb (CheckTNS b) st = (checkbox_onChange ''hasTNSname'' b st, [])"
| "handle required groups cb (CheckSpectrum b) st = (checkbox_onChange ''hasSpectrum'' b st, [])"
| "handle required groups cb (SelectGroups v) st = (groupIds_onChange v st, [])"
| "handle required groups cb ClickReset st = (handleClickReset st, [])"
| "handle required groups cb ClickSubmit st = (st, [handleSubmit required groups cb st])"

fun run ::
  "(fvalue option \<Rightarrow> bool) \<Rightarrow> group_item list option \<Rightarrow> (field_values \<Rightarrow> 'r) \<Rightarrow> event list \<Rightarrow> form_state \<Rightarrow>
   form_state \<times> 'r outcome list" where
  "run required groups cb [] st = (st, [])"
| "run required groups cb (e # es) st =
     (case handle required groups cb e st of
        (st', outs) \<Rightarrow> (case run required groups cb es st' of (st'', outs') \<Rightarrow> (st'', outs @ outs')))"

text \<open>
  A form from its first render on: nothing is shown and no event is handled when the
  render throws.
\<close>

definition session ::
  "(fvalue option \<Rightarrow> bool) \<Rightarrow> ('h \<Rightarrow> class_option list) \<Rightarrow> 'h taxonomy list \<Rightarrow> group_item list option \<Rightarrow>
   (field_values \<Rightarrow> 'r) \<Rightarrow> event list \<Rightarrow> js_error + (form_state \<times> 'r outcome list)" where
  "session required allowedClasses taxonomyList groups cb es =
     (case SourceTableFilterForm allowedClasses taxonomyList groups (initial_state groups) of
        Inl e \<Rightarrow> Inl e
      | Inr v \<Rightarrow> Inr (run required groups cb es (initial_state groups)))"

subsection \<open>The edits of the specification\<close>

text \<open>
  The specification speaks of \<open>setField(name, value)\<close>. The events that edit a field,
  each with the field it writes and the value it stores, and the value of the last edit of
  a field in a sequence of events.
\<close>

fun edit_of :: "event \<Rightarrow> (string \<times> fvalue) option" where
  "edit_of (Input n v) = Some (n, Text v)"
| "edit_of (SelectClassifications v) = Some (''classifications'', Labels v)"
| "edit_of (CheckTNS b) = Some (''hasTNSname'', Flag b)"
| "edit_of (CheckSpectrum b) = Some (''hasSpectrum'', Flag b)"
| "edit_of (SelectGroups v) = Some (''groupIds'', Ids v)"
| "edit_of ClickReset = None"
| "edit_of ClickSubmit = None"

definition is_edit :: "event \<Rightarrow> bool" where
  "is_edit e = (edit_of e \<noteq> None)"

fun last_setField :: "string \<Rightarrow> event list \<Rightarrow> fvalue option" where
  "last_setField f [] = None"
| "last_setField f (e # es) =
     (case last_setField f es of
        Some v \<Rightarrow> Some v
      | None \<Rightarrow> (case edit_of e of
                   Some (n, v) \<Rightarrow> if n = f then Some v else None
                 | None \<Rightarrow> None))"

section \<open>ShareDataForm\<close>

text \<open>
  The state of the data-sharing form: the selected row indices of the two tables, the
  \<^verbatim>\<open>isSubmitting\<close> flag, and the value of the \<^verbatim>\<open>groups\<close> controller of its
  \<^verbatim>\<open>useForm\<close> (default \<^verbatim>\<open>[]\<close>).
\<close>

record share_state =
  selectedPhotRows :: "nat list"
  selectedSpecRows :: "nat list"
  isSubmitting :: bool
  groups_field :: "group_item list"

record share_data =
  groupIDs :: "int list"
  photometryIDs :: "int list"
  spectrumIDs :: "int list"

record api_result =
  status :: jsstring

text \<open>
  \<^verbatim>\<open>photometry[route.id][idx].id\<close>: the rows of the source are a list of ids here, or
  \<open>None\<close> while nothing is loaded for it; reading a property of \<^verbatim>\<open>undefined\<close> throws.
\<close>

definition row_id :: "int list option \<Rightarrow> nat \<Rightarrow> js_error + int" where
  "row_id rows idx =
     (case rows of
        None \<Rightarrow> Inl TypeError
      | Some ids \<Rightarrow> if idx < length ids then Inr (ids ! idx) else Inl TypeError)"

fun selected_ids :: "int list option \<Rightarrow> nat list \<Rightarrow> js_error + int list" where
  "selected_ids rows [] = Inr []"
| "selected_ids rows (idx # idxs) =
     (case row_id rows idx of
        Inl e \<Rightarrow> Inl e
      | Inr x \<Rightarrow> (case selected_ids rows idxs of Inl e \<Rightarrow> Inl e | Inr xs \<Rightarrow> Inr (x # xs)))"

text \<open>The rule of the \<^verbatim>\<open>groups\<close> controller: \<^verbatim>\<open>formState.groups.length >= 1\<close>.\<close>

definition share_validateGroups :: "share_state \<Rightarrow> bool" where
  "share_validateGroups st = (length (groups_field st) \<ge> 1)"

text \<open>
  \<^verbatim>\<open>onSubmit\<close> is an \<^verbatim>\<open>async\<close> function. Up to its \<^verbatim>\<open>await\<close> it collects the
  ids, calls \<^verbatim>\<open>setIsSubmitting(true)\<close> and dispatches \<^verbatim>\<open>shareData(data)\<close>.
\<close>

definition onSubmit_begin ::
  "int list option \<Rightarrow> int list option \<Rightarrow> group_item list \<Rightarrow> share_state \<Rightarrow>
   js_error + share_state \<times> share_data" where
  "onSubmit_begin photometry spectra groupsFormData st =
     (case selected_ids photometry (selectedPhotRows st) of
        Inl e \<Rightarrow> Inl e
      | Inr selectedPhotIDs \<Rightarrow>
          (case selected_ids spectra (selectedSpecRows st) of
             Inl e \<Rightarrow> Inl e
           | Inr selectedSpecIDs \<Rightarrow>
               Inr (st\<lparr>isSubmitting := True\<rparr>,
                    \<lparr>groupIDs = map group_id groupsFormData,
                     photometryIDs = selectedPhotIDs,
                     spectrumIDs = selectedSpecIDs\<rparr>)))"

text \<open>
  The rest of \<^verbatim>\<open>onSubmit\<close> runs when the awaited dispatch settles, on the state of
  that moment: a rejection leaves \<^verbatim>\<open>onSubmit\<close> at the \<^verbatim>\<open>await\<close>; a result with
  status \<^verbatim>\<open>"success"\<close> shows a notification, calls \<^verbatim>\<open>reset({ groups: [] })\<close> and
  empties both row selections; in both cases of a result \<^verbatim>\<open>setIsSubmitting(false)\<close>
  follows. The second component lists the notifications shown.
\<close>

definition onSubmit_resume ::
  "js_error + api_result \<Rightarrow> share_state \<Rightarrow> js_error + share_state \<times> jsstring list" where
  "onSubmit_resume settled st =
     (case settled of
        Inl e \<Rightarrow> Inl e
      | Inr result \<Rightarrow>
          if status result = js ''success''
          then Inr (st\<lparr>groups_field := [], selectedPhotRows := [], selectedSpecRows := [],
                      isSubmitting := False\<rparr>,
                    [js ''Data successfully shared''])
          else Inr (st\<lparr>isSubmitting := False\<rparr>, []))"

text \<open>The button \<^verbatim>\<open>submitShareButton\<close> has \<^verbatim>\<open>disabled={isSubmitting}\<close>.\<close>

definition submitShareButton_disabled :: "share_state \<Rightarrow> bool" where
  "submitShareButton_disabled st = isSubmitting st"

text \<open>
  A click on the submit button: nothing when the button is disabled; otherwise
  \<^verbatim>\<open>handleSubmit(onSubmit)\<close> validates and, when the rule holds, starts \<^verbatim>\<open>onSubmit\<close>
  with the form's values.
\<close>

datatype share_click = Ignored | Invalid | Started share_state share_data | Failed js_error

definition share_click_submit ::
  "int list option \<Rightarrow> int list option \<Rightarrow> share_state \<Rightarrow> share_click" where
  "share_click_submit photometry spectra st =
     (if submitShareButton_disabled st then Ignored
      else if \<not> share_validateGroups st then Invalid
      else case onSubmit_begin photometry spectra (groups_field st) st of
             Inl e \<Rightarrow> Failed e
           | Inr (st', shared) \<Rightarrow> Started st' shared)"

text \<open>
  The user's actions on the data-sharing form: \<^verbatim>\<open>onRowSelectionChange\<close> of either
  table stores the selected rows, the \<^verbatim>\<open>Autocomplete\<close> stores the chosen groups, and a
  click on the submit button. The second component lists the share requests dispatched.
\<close>

datatype share_event =
    SelectPhotRows "nat list"
  | SelectSpecRows "nat list"
  | ChangeGroups "group_item list"
  | ClickShareSubmit

fun share_step ::
  "int list option \<Rightarrow> int list option \<Rightarrow> share_event \<Rightarrow> share_state \<Rightarrow>
   share_state \<times> share_data list" where
  "share_step photometry spectra (SelectPhotRows rowsSelected) st =
     (st\<lparr>selectedPhotRows := rowsSelected\<rparr>, [])"
| "share_step photometry spectra (SelectSpecRows rowsSelected) st =
     (st\<lparr>selectedSpecRows := rowsSelected\<rparr>, [])"
| "share_step photometry spectra (ChangeGroups chosen) st = (st\<lparr>groups_field := chosen\<rparr>, [])"
| "share_step photometry spectra ClickShareSubmit st =
     (case share_click_submit photometry spectra st of
        Started st' shared \<Rightarrow> (st', [shared])
      | _ \<Rightarrow> (st, []))"

fun share_run ::
  "int list option \<Rightarrow> int list option \<Rightarrow> share_event list \<Rightarrow> share_state \<Rightarrow>
   share_state \<times> share_data list" where
  "share_run photometry spectra [] st = (st, [])"
| "share_run photometry spectra (e # es) st =
     (case share_step photometry spectra e st of
        (st', reqs) \<Rightarrow>
          (case share_run photometry spectra es st' of (st'', reqs') \<Rightarrow> (st'', reqs @ reqs')))"

section \<open>CommentList\<close>

text \<open>
  \<^verbatim>\<open>state.profile\<close> with the \<^verbatim>\<open>username\<close> and \<^verbatim>\<open>roles\<close> that
  \<^verbatim>\<open>handleMouseHover\<close> reads, and a comment with its \<^verbatim>\<open>id\<close> and
  \<^verbatim>\<open>author.username\<close>. \<^verbatim>\<open>hoverID\<close> is \<^verbatim>\<open>null\<close> (\<open>None\<close>) or the id of a comment.
\<close>

record user_profile =
  username :: jsstring
  roles :: "jsstring list"

record comment =
  comment_id :: int
  author_username :: jsstring

definition handleMouseHover :: "int \<Rightarrow> user_profile \<Rightarrow> jsstring \<Rightarrow> int option \<Rightarrow> int option" where
  "handleMouseHover i userProfile author hoverID =
     (if js ''Super admin'' \<in> set (roles userProfile) \<or> username userProfile = author
      then Some i else hoverID)"

definition handleMouseLeave :: "int option \<Rightarrow> int option" where
  "handleMouseLeave hoverID = None"

text \<open>
  The delete button of comment \<open>i\<close> has \<^verbatim>\<open>display: "block"\<close> when
  \<^verbatim>\<open>hoverID === id\<close> and \<^verbatim>\<open>display: "none"\<close> otherwise.
\<close>

definition delete_button_shown :: "int option \<Rightarrow> int \<Rightarrow> bool" where
  "delete_button_shown hoverID i = (hoverID = Some i)"

text \<open>
  \<^verbatim>\<open>onMouseOver\<close> and \<^verbatim>\<open>onFocus\<close> of a comment call \<^verbatim>\<open>handleMouseHover\<close> with
  that comment's id and author; \<^verbatim>\<open>onMouseOut\<close> and \<^verbatim>\<open>onBlur\<close> call
  \<^verbatim>\<open>handleMouseLeave\<close>.
\<close>

datatype mouse_event = MouseOver comment | MouseOut

fun hover_step :: "user_profile \<Rightarrow> mouse_event \<Rightarrow> int option \<Rightarrow> int option" where
  "hover_step userProfile (MouseOver c) hoverID =
     handleMouseHover (comment_id c) userProfile (author_username c) hoverID"
| "hover_step userProfile MouseOut hoverID = handleMouseLeave hoverID"

fun hover_run :: "user_profile \<Rightarrow> mouse_event list \<Rightarrow> int option \<Rightarrow> int option" where
  "hover_run userProfile [] hoverID = hoverID"
| "hover_run userProfile (e # es) hoverID =
     hover_run userProfile es (hover_step userProfile e hoverID)"

section \<open>Properties of the classification options\<close>

lemma set_Set_add: "set (Set_add seen xs) = set seen \<union> set xs"
  by (induction xs arbitrary: seen) auto

lemma distinct_Set_add: "distinct seen \<Longrightarrow> distinct (Set_add seen xs)"
  by (induction xs arbitrary: seen) auto

lemma set_fold_append:
  "set (fold (\<lambda>t acc. acc @ f t) ts acc0) = set acc0 \<union> (\<Union>t \<in> set ts. set (f t))"
  by (induction ts arbitrary: acc0) auto

lemma set_concat_classes:
  "set (concat_classes ext ts) = (\<Union>t \<in> set ts. set (currentClasses ext t))"
  by (simp add: concat_classes_def set_fold_append)

lemma set_classifications:
  "set (classifications ext ts) =
     {label (name t) (option_class c) | t c. t \<in> set ts \<and> isLatest t \<and> c \<in> set (ext (hierarchy t))}"
  by (auto simp: classifications_def Array_from_Set_def set_Set_add set_concat_classes
      latestTaxonomyList_def currentClasses_def)

lemma distinct_classifications: "distinct (classifications ext ts)"
  by (simp add: classifications_def Array_from_Set_def distinct_Set_add)

lemma sorted_classifications: "sorted (classifications ext ts)"
  by (simp add: classifications_def)

lemma classifications_example:
  "classifications id
     [\<lparr>name = js ''T1'', isLatest = True,
       hierarchy = [\<lparr>option_class = js ''SN Ia''\<rparr>, \<lparr>option_class = js ''SN II''\<rparr>]\<rparr>]
   = [js ''T1: SN II'', js ''T1: SN Ia'']"
  by (simp add: classifications_def Array_from_Set_def concat_classes_def currentClasses_def
      latestTaxonomyList_def label_def js_def)

text \<open>
  Where no lead surrogate occurs, the code points of a string are its code units, and the
  order by code units is the order by code points.
\<close>

lemma code_points_no_lead: "\<forall>u \<in> set s. \<not> is_lead u \<Longrightarrow> code_points s = map unat s"
  by (induction s rule: code_points.induct) auto

lemma lexord_map_mono:
  assumes "\<And>a b. (a, b) \<in> r \<Longrightarrow> (f a, f b) \<in> r'"
  shows "(xs, ys) \<in> lexord r \<Longrightarrow> (map f xs, map f ys) \<in> lexord r'"
proof (induction xs arbitrary: ys)
  case Nil
  then show ?case by (cases ys) auto
next
  case (Cons x xs)
  then show ?case using assms by (cases ys) auto
qed

lemma map_unat_le:
  assumes "(xs :: 16 word list) \<le> ys"
  shows "map unat xs \<le> map unat ys"
proof (cases "xs = ys")
  case True
  then show ?thesis by simp
next
  case False
  with assms have "(xs, ys) \<in> lexord {(u, v). u < v}"
    by (simp add: list_le_def list_less_def)
  then have "(map unat xs, map unat ys) \<in> lexord {(u, v). u < v}"
    by (rule lexord_map_mono [rotated]) (simp add: word_less_nat_alt)
  then show ?thesis by (simp add: list_le_def list_less_def)
qed

lemma sorted_map_unat: "sorted (xs :: 16 word list list) \<Longrightarrow> sorted (map (map unat) xs)"
  by (induction xs) (auto simp: map_unat_le)

lemma sorted_code_points:
  assumes "sorted xs" and "\<forall>s \<in> set xs. \<forall>u \<in> set s. \<not> is_lead u"
  shows "sorted (map code_points xs)"
proof -
  have h: "map code_points xs = map (map unat) xs"
    using assms(2) by (auto simp: code_points_no_lead)
  show ?thesis unfolding h by (rule sorted_map_unat [OF assms(1)])
qed

text \<open>
  Claim C4, as the code has it. For every taxonomy list and extractor the option list holds
  exactly the labels \<open>name: class\<close> of the classes extracted from the taxonomies whose
  \<open>isLatest\<close> is true, each label once, in ascending order of UTF-16 code units; that is
  ascending code-point order whenever no label holds a lead surrogate. For the taxonomy
  \<open>T1\<close> with the classes \<open>SN Ia\<close> and \<open>SN II\<close> the list is \<open>T1: SN II\<close>, \<open>T1: SN Ia\<close>.
\<close>

theorem classifications_unique_sorted_by_code_units:
  "set (classifications allowedClasses taxonomyList) =
     {label (name t) (option_class c) | t c.
        t \<in> set taxonomyList \<and> isLatest t \<and> c \<in> set (allowedClasses (hierarchy t))}
   \<and> distinct (classifications allowedClasses taxonomyList)
   \<and> sorted (classifications allowedClasses taxonomyList)
   \<and> ((\<forall>s \<in> set (classifications allowedClasses taxonomyList). \<forall>u \<in> set s. \<not> is_lead u) \<longrightarrow>
        sorted (map code_points (classifications allowedClasses taxonomyList)))
   \<and> classifications id
        [\<lparr>name = js ''T1'', isLatest = True,
          hierarchy = [\<lparr>option_class = js ''SN Ia''\<rparr>, \<lparr>option_class = js ''SN II''\<rparr>]\<rparr>]
      = [js ''T1: SN II'', js ''T1: SN Ia'']"
  using set_classifications [of allowedClasses taxonomyList]
    distinct_classifications [of allowedClasses taxonomyList]
    sorted_classifications [of allowedClasses taxonomyList]
    sorted_code_points [of "classifications allowedClasses taxonomyList"]
    classifications_example
  by blast

theorem classifications_unique_sorted_by_code_units_witness:
  "list_all (list_all (\<lambda>u. \<not> is_lead u)) (classifications id
        [\<lparr>name = js ''T1'', isLatest = True,
          hierarchy = [\<lparr>option_class = js ''SN Ia''\<rparr>, \<lparr>option_class = js ''SN II''\<rparr>]\<rparr>])
   \<and> sorted (map code_points (classifications id
        [\<lparr>name = js ''T1'', isLatest = True,
          hierarchy = [\<lparr>option_class = js ''SN Ia''\<rparr>, \<lparr>option_class = js ''SN II''\<rparr>]\<rparr>]))"
proof -
  let ?ts = "[\<lparr>name = js ''T1'', isLatest = True,
               hierarchy = [\<lparr>option_class = js ''SN Ia''\<rparr>, \<lparr>option_class = js ''SN II''\<rparr>]\<rparr>]"
  note t = classifications_unique_sorted_by_code_units [of id ?ts]
  from t have e: "classifications id ?ts = [js ''T1: SN II'', js ''T1: SN Ia'']"
    by blast
  have h: "\<forall>s \<in> set (classifications id ?ts). \<forall>u \<in> set s. \<not> is_lead u"
    unfolding e by (simp add: js_def is_lead_def)
  with t have c: "sorted (map code_points (classifications id ?ts))" by blast
  have "list_all (list_all (\<lambda>u. \<not> is_lead u)) (classifications id ?ts)"
    unfolding e by (simp add: js_def is_lead_def)
  then show ?thesis using c by (rule conjI)
qed

text \<open>
  Claim C4 as stated fails on ascending code-point order: for the classes U+FF5E and
  U+1F600 (the surrogate pair \<open>D83D DE00\<close>) of one latest taxonomy, the label of U+1F600
  comes first, although its last code point is the greater one.
\<close>

theorem classifications_code_point_order_counterexample:
  "\<not> sorted (map code_points (classifications id
        [\<lparr>name = js ''T1'', isLatest = True,
          hierarchy = [\<lparr>option_class = [0xFF5E]\<rparr>, \<lparr>option_class = [0xD83D, 0xDE00]\<rparr>]\<rparr>]))"
  by (simp add: classifications_def Array_from_Set_def concat_classes_def currentClasses_def
      latestTaxonomyList_def label_def js_def is_lead_def is_trail_def)

section \<open>Properties of the filter form\<close>

text \<open>
  Claim C1. Whenever a group list is supplied and the \<open>groupIds\<close> selection of the draft is
  empty, a submit does not call the filter-apply callback and reports a validation failure
  under the \<open>groupIds\<close> field.
\<close>

theorem submit_empty_groupIds_blocked:
  assumes "groups = Some gs" and "fieldValues st ''groupIds'' = Some (Ids [])"
  shows "handle required groups cb ClickSubmit st
           = (st, [Blocked [(''groupIds'', if required (Some (Ids [])) then Validate else Required)]])
       \<and> \<not> callback_invoked (handleSubmit required groups cb st)
       \<and> MissingRequiredSelection (handleSubmit required groups cb st)"
  using assms
  by (simp add: handleSubmit_def group_section_shown_def groupIds_rules_def validateGroups_def
      callback_invoked_def MissingRequiredSelection_def)

theorem submit_empty_groupIds_blocked_witness:
  "fieldValues (initial_state (Some [\<lparr>group_id = 3, group_name = js ''g''\<rparr>])) ''groupIds''
     = Some (Ids [])
   \<and> handle required_ok (Some [\<lparr>group_id = 3, group_name = js ''g''\<rparr>]) id ClickSubmit
        (initial_state (Some [\<lparr>group_id = 3, group_name = js ''g''\<rparr>]))
      = (initial_state (Some [\<lparr>group_id = 3, group_name = js ''g''\<rparr>]),
         [Blocked [(''groupIds'', Required)]])"
proof -
  have h: "fieldValues (initial_state (Some [\<lparr>group_id = 3, group_name = js ''g''\<rparr>])) ''groupIds''
             = Some (Ids [])"
    by (simp add: initial_state_def defaultValues_def default_fields_def text_fields_def
        group_section_shown_def)
  show ?thesis
    using h submit_empty_groupIds_blocked [where cb = id and required = required_ok, OF refl h]
    by (simp add: required_ok_def)
qed

text \<open>An edit overwrites the value of its own field and nothing else.\<close>

lemma handle_edit:
  "edit_of e = Some (n, v) \<Longrightarrow>
     fieldValues (fst (handle required groups cb e st)) = (fieldValues st)(n \<mapsto> v)
     \<and> snd (handle required groups cb e st) = []"
  by (cases e)
    (auto simp: input_change_def classifications_onChange_def checkbox_onChange_def
      groupIds_onChange_def)

lemma run_edits:
  "list_all is_edit es \<Longrightarrow>
     fieldValues (fst (run required groups cb es st)) f
       = (case last_setField f es of Some v \<Rightarrow> Some v | None \<Rightarrow> fieldValues st f)
     \<and> snd (run required groups cb es st) = []"
proof (induction es arbitrary: st)
  case Nil
  then show ?case by simp
next
  case (Cons e es)
  from Cons.prems obtain n v where e: "edit_of e = Some (n, v)"
    by (auto simp: is_edit_def)
  from Cons.prems have es: "list_all is_edit es" by simp
  obtain st1 outs1 where h: "handle required groups cb e st = (st1, outs1)"
    by (cases "handle required groups cb e st")
  from handle_edit [OF e, of required groups cb st] h
  have st1: "fieldValues st1 = (fieldValues st)(n \<mapsto> v)" and outs1: "outs1 = []"
    by simp_all
  from Cons.IH [OF es, of st1] show ?case
    by (auto simp: h e st1 outs1 split: prod.splits option.splits)
qed

lemma run_append:
  "run required groups cb (es @ es') st =
     (case run required groups cb es st of
        (st', outs) \<Rightarrow> (case run required groups cb es' st' of (st'', outs') \<Rightarrow> (st'', outs @ outs')))"
  by (induction es arbitrary: st) (auto split: prod.splits)

text \<open>
  Claim C6. After any sequence of field edits on a freshly rendered form, a submit that
  passes validation calls the callback once, with the values of the form: every field
  holds the value of its last edit, or its default when it was never edited. What the call
  produces, a thrown exception included, is the outcome of the submit as it is.
\<close>

theorem submit_passes_last_edits:
  assumes "list_all is_edit es"
    and "session required allowedClasses taxonomyList groups cb (es @ [ClickSubmit]) = Inr (st, [Invoked vals r])"
  shows "(\<forall>f. vals f = (case last_setField f es of Some v \<Rightarrow> Some v | None \<Rightarrow> defaultValues groups f))
       \<and> r = cb vals \<and> fieldValues st = vals"
proof -
  obtain st1 outs1 where r1: "run required groups cb es (initial_state groups) = (st1, outs1)"
    by (cases "run required groups cb es (initial_state groups)")
  have d: "fieldValues (initial_state groups) = defaultValues groups"
    by (simp add: initial_state_def)
  have fv: "fieldValues st1 f
              = (case last_setField f es of Some v \<Rightarrow> Some v | None \<Rightarrow> defaultValues groups f)" for f
    using run_edits [OF assms(1), of required groups cb "initial_state groups" f] r1
    by (simp add: d split: option.splits)
  have outs1: "outs1 = []"
    using run_edits [OF assms(1), of required groups cb "initial_state groups"] r1 by simp
  from assms(2) have "run required groups cb (es @ [ClickSubmit]) (initial_state groups) = (st, [Invoked vals r])"
    by (simp add: session_def split: sum.splits)
  then have "st = st1 \<and> handleSubmit required groups cb st1 = Invoked vals r"
    by (auto simp: run_append r1 outs1)
  then have "st = st1" and sub: "handleSubmit required groups cb st1 = Invoked vals r"
    by simp_all
  from sub have "vals = fieldValues st1" and "r = cb vals"
    by (auto simp: handleSubmit_def split: if_splits sum.splits option.splits)
  with fv \<open>st = st1\<close> show ?thesis by simp
qed

theorem submit_passes_last_edits_witness:
  "list_all is_edit [Input ''sourceID'' (js ''ZTF21abc''), SelectGroups [3]]
   \<and> session required_ok id [] (Some [\<lparr>group_id = 3, group_name = js ''g''\<rparr>]) id
       ([Input ''sourceID'' (js ''ZTF21abc''), SelectGroups [3]] @ [ClickSubmit])
     = Inr (\<lparr>fieldValues = (defaultValues (Some [\<lparr>group_id = 3, group_name = js ''g''\<rparr>]))
                 (''sourceID'' \<mapsto> Text (js ''ZTF21abc''), ''groupIds'' \<mapsto> Ids [3]),
              selectedClassifications = [], selectedGroups = []\<rparr>,
            [Invoked ((defaultValues (Some [\<lparr>group_id = 3, group_name = js ''g''\<rparr>]))
                 (''sourceID'' \<mapsto> Text (js ''ZTF21abc''), ''groupIds'' \<mapsto> Ids [3]))
               ((defaultValues (Some [\<lparr>group_id = 3, group_name = js ''g''\<rparr>]))
                 (''sourceID'' \<mapsto> Text (js ''ZTF21abc''), ''groupIds'' \<mapsto> Ids [3]))])
   \<and> ((defaultValues (Some [\<lparr>group_id = 3, group_name = js ''g''\<rparr>]))
         (''sourceID'' \<mapsto> Text (js ''ZTF21abc''), ''groupIds'' \<mapsto> Ids [3])) ''hasSpectrum''
       = defaultValues (Some [\<lparr>group_id = 3, group_name = js ''g''\<rparr>]) ''hasSpectrum''"
proof -
  let ?G = "Some [\<lparr>group_id = 3, group_name = js ''g''\<rparr>]"
  let ?es = "[Input ''sourceID'' (js ''ZTF21abc''), SelectGroups [3]]"
  let ?vals = "(defaultValues ?G)(''sourceID'' \<mapsto> Text (js ''ZTF21abc''), ''groupIds'' \<mapsto> Ids [3])"
  have a: "list_all is_edit ?es" by (simp add: is_edit_def)
  have b: "session required_ok id [] ?G id (?es @ [ClickSubmit])
     = Inr (\<lparr>fieldValues = ?vals, selectedClassifications = [], selectedGroups = []\<rparr>,
            [Invoked ?vals (id ?vals)])"
    by (simp add: session_def SourceTableFilterForm_def groupIDToName_def initial_state_def
        input_change_def groupIds_onChange_def handleSubmit_def group_section_shown_def
        groupIds_rules_def required_ok_def validateGroups_def)
  from submit_passes_last_edits [OF a b] have "?vals ''hasSpectrum'' = defaultValues ?G ''hasSpectrum''"
    by simp
  with a b show ?thesis by simp
qed

text \<open>
  What the reset does and does not do: it empties the text inputs, leaves every other held
  value as it was, changes nothing more when repeated, and calls no callback. The two
  display arrays are not an input of a submit, and \<open>selectedClassifications\<close> equals the
  held \<open>classifications\<close> value through every possible event.
\<close>

lemma map_of_constant:
  "map_of (map (\<lambda>k. (k, c)) ks) n = (if n \<in> set ks then Some c else None)"
  by (induction ks) auto

lemma reset_clears_text_inputs:
  "fieldValues (handleClickReset st) n
     = (if n \<in> set text_fields then Some (Text []) else fieldValues st n)"
  by (simp add: handleClickReset_def map_add_def map_of_constant)

lemma reset_idempotent: "handleClickReset (handleClickReset st) = handleClickReset st"
proof -
  have "(m ++ f) ++ f = m ++ f" for m f :: field_values
    by (rule ext) (simp add: map_add_def split: option.splits)
  then show ?thesis by (simp add: handleClickReset_def)
qed

lemma reset_calls_nothing: "snd (handle required groups cb ClickReset st) = []"
  by simp

lemma mirrors_do_not_reach_callback:
  "handleSubmit required groups cb (st\<lparr>selectedClassifications := a, selectedGroups := b\<rparr>)
     = handleSubmit required groups cb st"
proof -
  have "groupIds_rules required (st\<lparr>selectedClassifications := a, selectedGroups := b\<rparr>)
            = groupIds_rules required st"
    by (simp add: groupIds_rules_def validateGroups_def)
  then show ?thesis
    by (simp add: handleSubmit_def cong: sum.case_cong option.case_cong)
qed

lemma classification_mirror_follows:
  assumes "fieldValues st ''classifications'' = Some (Labels (selectedClassifications st))"
    and "possible opts groups e"
    and "handle required groups cb e st = (st', outs)"
  shows "fieldValues st' ''classifications'' = Some (Labels (selectedClassifications st'))"
proof (cases e)
  case ClickReset
  with assms show ?thesis
    by (auto simp: reset_clears_text_inputs text_fields_def handleClickReset_def)
next
  case (Input n v)
  with assms show ?thesis
    by (auto simp: possible_def text_fields_def input_change_def)
qed (use assms in \<open>auto simp: classifications_onChange_def checkbox_onChange_def
      groupIds_onChange_def\<close>)

text \<open>
  Claim C2. After the classification \<open>T1: SN Ia\<close> is selected and the form is reset, no
  callback was called, but the \<open>classifications\<close> field still holds \<open>T1: SN Ia\<close> and so
  does \<open>selectedClassifications\<close>: the reset neither puts this field back to its default
  nor clears the display array.
\<close>

theorem reset_keeps_classifications:
  "fieldValues
     (fst (run required (Some [\<lparr>group_id = 3, group_name = js ''g''\<rparr>]) cb
        [SelectClassifications [js ''T1: SN Ia''], ClickReset]
        (initial_state (Some [\<lparr>group_id = 3, group_name = js ''g''\<rparr>])))) ''classifications''
     = Some (Labels [js ''T1: SN Ia''])
   \<and> selectedClassifications
     (fst (run required (Some [\<lparr>group_id = 3, group_name = js ''g''\<rparr>]) cb
        [SelectClassifications [js ''T1: SN Ia''], ClickReset]
        (initial_state (Some [\<lparr>group_id = 3, group_name = js ''g''\<rparr>]))))
     = [js ''T1: SN Ia'']
   \<and> snd (run required (Some [\<lparr>group_id = 3, group_name = js ''g''\<rparr>]) cb
        [SelectClassifications [js ''T1: SN Ia''], ClickReset]
        (initial_state (Some [\<lparr>group_id = 3, group_name = js ''g''\<rparr>])))
     = []"
  by (simp add: reset_clears_text_inputs text_fields_def classifications_onChange_def
      handleClickReset_def)

text \<open>
  Claim C3. After group 3 is selected, the committed \<open>groupIds\<close> selection is 3 while
  \<open>selectedGroups\<close> is still empty: the display array differs from the committed selection
  as soon as a group is selected.
\<close>

theorem group_selection_leaves_selectedGroups:
  "run required (Some [\<lparr>group_id = 3, group_name = js ''g''\<rparr>]) cb [SelectGroups [3]]
       (initial_state (Some [\<lparr>group_id = 3, group_name = js ''g''\<rparr>]))
   = (\<lparr>fieldValues = (defaultValues (Some [\<lparr>group_id = 3, group_name = js ''g''\<rparr>]))
                         (''groupIds'' \<mapsto> Ids [3]),
       selectedClassifications = [], selectedGroups = []\<rparr>, [])"
  by (simp add: initial_state_def groupIds_onChange_def)

text \<open>
  Claim C5. Without a group list the component throws while it renders, whatever the
  taxonomies, the callback and the events: there is no form to submit and the callback is
  never called.
\<close>

theorem session_without_groups_throws:
  "session required allowedClasses taxonomyList None cb es = Inl TypeError"
  by (simp add: session_def SourceTableFilterForm_def groupIDToName_def)

text \<open>
  With an empty group list the only value the group selector can report is the empty
  selection, so \<open>groupIds\<close> stays empty and every submit is blocked.
\<close>

lemma handle_empty_groups:
  assumes "possible opts (Some []) e" and "fieldValues st ''groupIds'' = Some (Ids [])"
  shows "fieldValues (fst (handle required (Some []) cb e st)) ''groupIds'' = Some (Ids [])
       \<and> snd (handle required (Some []) cb e st)
           = (if e = ClickSubmit
              then [Blocked [(''groupIds'', if required (Some (Ids [])) then Validate else Required)]]
              else [])"
  using assms
  by (cases e)
    (auto simp: possible_def group_menu_values_def text_fields_def input_change_def
      classifications_onChange_def checkbox_onChange_def groupIds_onChange_def
      reset_clears_text_inputs group_section_shown_def
      handleSubmit_def groupIds_rules_def validateGroups_def)

lemma run_empty_groups:
  assumes "list_all (possible opts (Some [])) es" and "fieldValues st ''groupIds'' = Some (Ids [])"
  shows "snd (run required (Some []) cb es st)
           = replicate (length (filter (\<lambda>e. e = ClickSubmit) es))
               (Blocked [(''groupIds'', if required (Some (Ids [])) then Validate else Required)])"
  using assms
proof (induction es arbitrary: st)
  case Nil
  then show ?case by simp
next
  case (Cons e es)
  from Cons.prems have p: "possible opts (Some []) e" and ps: "list_all (possible opts (Some [])) es"
    by simp_all
  note h = handle_empty_groups [OF p Cons.prems(2), of required cb]
  from Cons.IH [OF ps, of "fst (handle required (Some []) cb e st)"] h
  show ?case
    by (auto split: prod.splits)
qed

text \<open>
  Claim C8. When the group list is the empty list, the group section is rendered with no
  menu entry, and through any sequence of possible events every submit fails validation
  under \<open>groupIds\<close> without calling the callback.
\<close>

theorem empty_group_list_never_submits:
  assumes "list_all (possible (classifications allowedClasses taxonomyList) (Some [])) es"
  shows "group_section_shown (Some [])
       \<and> (\<exists>v. SourceTableFilterForm allowedClasses taxonomyList (Some []) st' = Inr v
              \<and> group_menu v = Some [])
       \<and> (\<exists>st outs. session required allowedClasses taxonomyList (Some []) cb es = Inr (st, outs)
              \<and> length outs = length (filter (\<lambda>e. e = ClickSubmit) es)
              \<and> list_all (\<lambda>out. MissingRequiredSelection out \<and> \<not> callback_invoked out) outs)"
proof -
  let ?n = "length (filter (\<lambda>e. e = ClickSubmit) es)"
  have g: "fieldValues (initial_state (Some [])) ''groupIds'' = Some (Ids [])"
    by (simp add: initial_state_def defaultValues_def default_fields_def text_fields_def
        group_section_shown_def)
  obtain st outs where r: "run required (Some []) cb es (initial_state (Some [])) = (st, outs)"
    by (cases "run required (Some []) cb es (initial_state (Some []))")
  from run_empty_groups [OF assms g, of required cb] r
  have outs: "outs = replicate ?n
      (Blocked [(''groupIds'', if required (Some (Ids [])) then Validate else Required)])"
    by simp
  have a: "length outs = ?n" unfolding outs by simp
  have b: "list_all (\<lambda>out. MissingRequiredSelection out \<and> \<not> callback_invoked out) outs"
    unfolding outs by (simp add: list_all_iff MissingRequiredSelection_def callback_invoked_def)
  have c: "session required allowedClasses taxonomyList (Some []) cb es = Inr (st, outs)"
    by (simp add: session_def SourceTableFilterForm_def groupIDToName_def r)
  have d: "\<exists>v. SourceTableFilterForm allowedClasses taxonomyList (Some []) st' = Inr v
              \<and> group_menu v = Some []"
    by (simp add: SourceTableFilterForm_def groupIDToName_def group_menu_values_def)
  have e: "group_section_shown (Some [])"
    by (simp add: group_section_shown_def)
  from a b c d e show ?thesis by blast
qed

theorem empty_group_list_never_submits_witness:
  "list_all (possible (classifications id []) (Some [])) [SelectGroups [], ClickSubmit, ClickReset, ClickSubmit]
   \<and> (\<exists>st outs. session required_ok id [] (Some []) id [SelectGroups [], ClickSubmit, ClickReset, ClickSubmit]
                  = Inr (st, outs)
        \<and> length outs = 2
        \<and> list_all (\<lambda>out. MissingRequiredSelection out \<and> \<not> callback_invoked out) outs)"
proof -
  have a: "list_all (possible (classifications id []) (Some []))
             [SelectGroups [], ClickSubmit, ClickReset, ClickSubmit]"
    by (simp add: possible_def group_menu_values_def)
  from empty_group_list_never_submits [where cb = id and required = required_ok, OF a] a
  show ?thesis
    by (simp add: numeral_2_eq_2)
qed

section \<open>Properties of the data-sharing form\<close>

text \<open>While \<open>isSubmitting\<close> holds, no event changes it and no click starts a request.\<close>

lemma share_step_in_flight:
  "isSubmitting st \<Longrightarrow>
     isSubmitting (fst (share_step photometry spectra e st))
     \<and> snd (share_step photometry spectra e st) = []"
  by (cases e) (auto simp: share_click_submit_def submitShareButton_disabled_def)

lemma share_run_in_flight:
  "isSubmitting st \<Longrightarrow>
     isSubmitting (fst (share_run photometry spectra es st))
     \<and> snd (share_run photometry spectra es st) = []"
proof (induction es arbitrary: st)
  case Nil
  then show ?case by simp
next
  case (Cons e es)
  from share_step_in_flight [OF Cons.prems, of photometry spectra e]
  have a: "isSubmitting (fst (share_step photometry spectra e st))"
    and b: "snd (share_step photometry spectra e st) = []"
    by simp_all
  from Cons.IH [OF a] b show ?case
    by (auto split: prod.splits)
qed

text \<open>
  Claim C7. The filter form renders its submit button enabled in every state, and a submit
  leaves its state as it was, so a second submit runs like the first. The data-sharing
  form sets \<open>isSubmitting\<close> before it dispatches the request; while the flag is set the
  button is disabled and no further request is dispatched, whatever the user does; when
  the request resolves the flag is cleared and the button is enabled again.
\<close>

theorem submitting_flag_only_in_share_form:
  assumes "SourceTableFilterForm allowedClasses taxonomyList groups st = Inr v"
    and "onSubmit_begin photometry spectra groupsFormData sst = Inr (sst1, shared)"
    and "share_run photometry spectra es sst1 = (sst2, reqs)"
    and "onSubmit_resume (Inr result) sst2 = Inr (sst3, notes)"
  shows "\<not> submit_disabled v
       \<and> run required groups cb [ClickSubmit, ClickSubmit] st
           = (st, [handleSubmit required groups cb st, handleSubmit required groups cb st])
       \<and> isSubmitting sst1
       \<and> isSubmitting sst2 \<and> submitShareButton_disabled sst2 \<and> reqs = []
       \<and> submitShareButton_disabled sst = isSubmitting sst
       \<and> \<not> isSubmitting sst3 \<and> \<not> submitShareButton_disabled sst3"
proof -
  from assms(1) have a: "\<not> submit_disabled v"
    by (auto simp: SourceTableFilterForm_def split: sum.splits)
  from assms(2) have b: "isSubmitting sst1"
    by (auto simp: onSubmit_begin_def split: sum.splits)
  from share_run_in_flight [OF b, of photometry spectra es] assms(3)
  have c: "isSubmitting sst2 \<and> reqs = []" by simp
  from assms(4) have d: "\<not> isSubmitting sst3"
    by (auto simp: onSubmit_resume_def split: if_splits)
  from a b c d show ?thesis
    by (simp add: submitShareButton_disabled_def)
qed

theorem submitting_flag_only_in_share_form_witness:
  "SourceTableFilterForm id [] (Some []) (initial_state (Some []))
     = Inr \<lparr>classification_menu = [], group_menu = Some [],
            submit_disabled = False\<rparr>
   \<and> onSubmit_begin (Some [10, 11]) None [\<lparr>group_id = 3, group_name = js ''g''\<rparr>]
        \<lparr>selectedPhotRows = [1], selectedSpecRows = [], isSubmitting = False,
          groups_field = [\<lparr>group_id = 3, group_name = js ''g''\<rparr>]\<rparr>
      = Inr (\<lparr>selectedPhotRows = [1], selectedSpecRows = [], isSubmitting = True,
               groups_field = [\<lparr>group_id = 3, group_name = js ''g''\<rparr>]\<rparr>,
             \<lparr>groupIDs = [3], photometryIDs = [11], spectrumIDs = []\<rparr>)
   \<and> share_run (Some [10, 11]) None [ClickShareSubmit, SelectPhotRows [0]]
        \<lparr>selectedPhotRows = [1], selectedSpecRows = [], isSubmitting = True,
          groups_field = [\<lparr>group_id = 3, group_name = js ''g''\<rparr>]\<rparr>
      = (\<lparr>selectedPhotRows = [0], selectedSpecRows = [], isSubmitting = True,
           groups_field = [\<lparr>group_id = 3, group_name = js ''g''\<rparr>]\<rparr>, [])
   \<and> onSubmit_resume (Inr \<lparr>status = js ''error''\<rparr>)
        \<lparr>selectedPhotRows = [0], selectedSpecRows = [], isSubmitting = True,
          groups_field = [\<lparr>group_id = 3, group_name = js ''g''\<rparr>]\<rparr>
      = Inr (\<lparr>selectedPhotRows = [0], selectedSpecRows = [], isSubmitting = False,
               groups_field = [\<lparr>group_id = 3, group_name = js ''g''\<rparr>]\<rparr>, [])
   \<and> \<not> submitShareButton_disabled
        \<lparr>selectedPhotRows = [0], selectedSpecRows = [], isSubmitting = False,
          groups_field = [\<lparr>group_id = 3, group_name = js ''g''\<rparr>]\<rparr>"
proof -
  let ?g = "\<lparr>group_id = 3, group_name = js ''g''\<rparr>"
  let ?s0 = "\<lparr>selectedPhotRows = [1], selectedSpecRows = [], isSubmitting = False,
               groups_field = [?g]\<rparr>"
  let ?s1 = "\<lparr>selectedPhotRows = [1], selectedSpecRows = [], isSubmitting = True,
               groups_field = [?g]\<rparr>"
  let ?s2 = "\<lparr>selectedPhotRows = [0], selectedSpecRows = [], isSubmitting = True,
               groups_field = [?g]\<rparr>"
  let ?s3 = "\<lparr>selectedPhotRows = [0], selectedSpecRows = [], isSubmitting = False,
               groups_field = [?g]\<rparr>"
  have a: "SourceTableFilterForm id [] (Some []) (initial_state (Some []))
     = Inr \<lparr>classification_menu = [], group_menu = Some [],
            submit_disabled = False\<rparr>"
    by (simp add: SourceTableFilterForm_def groupIDToName_def classifications_def
        Array_from_Set_def concat_classes_def latestTaxonomyList_def group_menu_values_def
        initial_state_def defaultValues_def default_fields_def text_fields_def
        group_section_shown_def)
  have b: "onSubmit_begin (Some [10, 11]) None [?g] ?s0
      = Inr (?s1, \<lparr>groupIDs = [3], photometryIDs = [11], spectrumIDs = []\<rparr>)"
    by (simp add: onSubmit_begin_def row_id_def)
  have c: "share_run (Some [10, 11]) None [ClickShareSubmit, SelectPhotRows [0]] ?s1 = (?s2, [])"
    by (simp add: share_click_submit_def submitShareButton_disabled_def)
  have d: "onSubmit_resume (Inr \<lparr>status = js ''error''\<rparr>) ?s2 = Inr (?s3, [])"
    by (simp add: onSubmit_resume_def js_def)
  from submitting_flag_only_in_share_form [OF a b c d]
  have "\<not> submitShareButton_disabled ?s3" by simp
  with a b c d show ?thesis by simp
qed

text \<open>
  Claim C9. When the share request resolves, a result with status \<open>success\<close> empties the
  group selection and both row selections, any other result leaves the three unchanged;
  with a group selection that passes the form's rule, the three are empty afterwards
  exactly when the status is \<open>success\<close>. In both cases \<open>isSubmitting\<close> is false afterwards.
\<close>

theorem share_reset_iff_success:
  assumes "onSubmit_resume (Inr result) st = Inr (st', notes)"
  shows "(status result = js ''success'' \<longrightarrow>
            groups_field st' = [] \<and> selectedPhotRows st' = [] \<and> selectedSpecRows st' = [])
       \<and> (status result \<noteq> js ''success'' \<longrightarrow>
            groups_field st' = groups_field st \<and> selectedPhotRows st' = selectedPhotRows st
            \<and> selectedSpecRows st' = selectedSpecRows st)
       \<and> (share_validateGroups st \<longrightarrow>
            (groups_field st' = [] \<and> selectedPhotRows st' = [] \<and> selectedSpecRows st' = [])
            = (status result = js ''success''))
       \<and> \<not> isSubmitting st'"
  using assms
  by (auto simp: onSubmit_resume_def share_validateGroups_def split: if_splits)

theorem share_reset_iff_success_witness:
  "onSubmit_resume (Inr \<lparr>status = js ''success''\<rparr>)
        \<lparr>selectedPhotRows = [1], selectedSpecRows = [0], isSubmitting = True,
          groups_field = [\<lparr>group_id = 3, group_name = js ''g''\<rparr>]\<rparr>
      = Inr (\<lparr>selectedPhotRows = [], selectedSpecRows = [], isSubmitting = False,
               groups_field = []\<rparr>, [js ''Data successfully shared''])
   \<and> onSubmit_resume (Inr \<lparr>status = js ''error''\<rparr>)
        \<lparr>selectedPhotRows = [1], selectedSpecRows = [0], isSubmitting = True,
          groups_field = [\<lparr>group_id = 3, group_name = js ''g''\<rparr>]\<rparr>
      = Inr (\<lparr>selectedPhotRows = [1], selectedSpecRows = [0], isSubmitting = False,
               groups_field = [\<lparr>group_id = 3, group_name = js ''g''\<rparr>]\<rparr>, [])
   \<and> share_validateGroups
        \<lparr>selectedPhotRows = [1], selectedSpecRows = [0], isSubmitting = True,
          groups_field = [\<lparr>group_id = 3, group_name = js ''g''\<rparr>]\<rparr>
   \<and> status \<lparr>status = js ''error''\<rparr> \<noteq> js ''success''
   \<and> groups_field \<lparr>selectedPhotRows = [], selectedSpecRows = [], isSubmitting = False,
               groups_field = []\<rparr> = []
   \<and> groups_field \<lparr>selectedPhotRows = [1], selectedSpecRows = [0], isSubmitting = False,
               groups_field = [\<lparr>group_id = 3, group_name = js ''g''\<rparr>]\<rparr>
       = [\<lparr>group_id = 3, group_name = js ''g''\<rparr>]"
proof -
  let ?s = "\<lparr>selectedPhotRows = [1], selectedSpecRows = [0], isSubmitting = True,
              groups_field = [\<lparr>group_id = 3, group_name = js ''g''\<rparr>]\<rparr>"
  let ?ok = "\<lparr>selectedPhotRows = [], selectedSpecRows = [], isSubmitting = False,
               groups_field = []\<rparr>"
  let ?ko = "\<lparr>selectedPhotRows = [1], selectedSpecRows = [0], isSubmitting = False,
               groups_field = [\<lparr>group_id = 3, group_name = js ''g''\<rparr>]\<rparr>"
  have a: "onSubmit_resume (Inr \<lparr>status = js ''success''\<rparr>) ?s
             = Inr (?ok, [js ''Data successfully shared''])"
    by (simp add: onSubmit_resume_def)
  have b: "onSubmit_resume (Inr \<lparr>status = js ''error''\<rparr>) ?s = Inr (?ko, [])"
    by (simp add: onSubmit_resume_def js_def)
  have c: "share_validateGroups ?s" by (simp add: share_validateGroups_def)
  have d: "status \<lparr>status = js ''error''\<rparr> \<noteq> js ''success''" by (simp add: js_def)
  from share_reset_iff_success [OF a] have e: "groups_field ?ok = []" by simp
  from share_reset_iff_success [OF b] d have f: "groups_field ?ko = groups_field ?s" by blast
  from a b c d e f show ?thesis by simp
qed

section \<open>Properties of the comment list\<close>

lemma hover_run_invariant:
  assumes "hover_run u es h = Some i"
  shows "h = Some i \<or> js ''Super admin'' \<in> set (roles u)
         \<or> (\<exists>c. MouseOver c \<in> set es \<and> comment_id c = i \<and> author_username c = username u)"
  using assms
proof (induction es arbitrary: h)
  case Nil
  then show ?case by simp
next
  case (Cons e es)
  from Cons.IH [OF Cons.prems [simplified]]
  show ?case
    by (cases e) (auto simp: handleMouseHover_def handleMouseLeave_def split: if_splits)
qed

text \<open>
  Claim C10. \<open>handleMouseHover\<close> changes \<open>hoverID\<close> only when the user's roles include
  \<open>Super admin\<close> or the user is the author of the hovered comment; so, through any
  sequence of hover and leave events, the delete button of a comment is shown only to a
  super admin or to a user who hovered a comment of that id written by themselves.
\<close>

theorem delete_button_only_for_admin_or_author:
  "(handleMouseHover i u a h \<noteq> h \<longrightarrow> js ''Super admin'' \<in> set (roles u) \<or> username u = a)
   \<and> (delete_button_shown (hover_run u es None) j \<longrightarrow>
        js ''Super admin'' \<in> set (roles u)
        \<or> (\<exists>c. MouseOver c \<in> set es \<and> comment_id c = j \<and> author_username c = username u))"
  using hover_run_invariant [of u es None j]
  by (auto simp: handleMouseHover_def delete_button_shown_def)

theorem delete_button_only_for_admin_or_author_witness:
  "handleMouseHover 7 \<lparr>username = js ''ann'', roles = [js ''Full user'']\<rparr> (js ''ann'') None \<noteq> None
   \<and> delete_button_shown
        (hover_run \<lparr>username = js ''ann'', roles = [js ''Full user'']\<rparr>
           [MouseOver \<lparr>comment_id = 7, author_username = js ''ann''\<rparr>,
            MouseOver \<lparr>comment_id = 8, author_username = js ''bob''\<rparr>] None) 7
   \<and> \<not> delete_button_shown
        (hover_run \<lparr>username = js ''ann'', roles = [js ''Full user'']\<rparr>
           [MouseOver \<lparr>comment_id = 7, author_username = js ''ann''\<rparr>,
            MouseOver \<lparr>comment_id = 8, author_username = js ''bob''\<rparr>] None) 8
   \<and> (js ''Super admin'' \<in> set (roles \<lparr>username = js ''ann'', roles = [js ''Full user'']\<rparr>)
        \<or> username \<lparr>username = js ''ann'', roles = [js ''Full user'']\<rparr> = js ''ann'')
   \<and> (js ''Super admin'' \<in> set (roles \<lparr>username = js ''ann'', roles = [js ''Full user'']\<rparr>)
        \<or> (\<exists>c. MouseOver c \<in> set [MouseOver \<lparr>comment_id = 7, author_username = js ''ann''\<rparr>,
                                     MouseOver \<lparr>comment_id = 8, author_username = js ''bob''\<rparr>]
               \<and> comment_id c = 7
               \<and> author_username c = username \<lparr>username = js ''ann'', roles = [js ''Full user'']\<rparr>))"
proof -
  let ?u = "\<lparr>username = js ''ann'', roles = [js ''Full user'']\<rparr>"
  let ?es = "[MouseOver \<lparr>comment_id = 7, author_username = js ''ann''\<rparr>,
              MouseOver \<lparr>comment_id = 8, author_username = js ''bob''\<rparr>]"
  have a: "handleMouseHover 7 ?u (js ''ann'') None \<noteq> None"
    by (simp add: handleMouseHover_def)
  have b: "delete_button_shown (hover_run ?u ?es None) 7"
    by (simp add: handleMouseHover_def delete_button_shown_def js_def)
  have c: "\<not> delete_button_shown (hover_run ?u ?es None) 8"
    by (simp add: handleMouseHover_def delete_button_shown_def js_def)
  note t = delete_button_only_for_admin_or_author [of 7 ?u "js ''ann''" None ?es 7]
  from t a have d: "js ''Super admin'' \<in> set (roles ?u) \<or> username ?u = js ''ann''"
    by blast
  from t b have e: "js ''Super admin'' \<in> set (roles ?u)
        \<or> (\<exists>c. MouseOver c \<in> set ?es \<and> comment_id c = 7 \<and> author_username c = username ?u)"
    by blast
  from a b c d e show ?thesis by blast
qed

end
